theory Spec2Isabelle
  imports Main
begin

section \<open>Python string operations used by the query tool\<close>

text \<open>
  Python strings are modelled as \<^typ>\<open>string\<close> and the model covers ASCII text: a
  character outside ASCII has no case and is no whitespace here. \<open>str.upper\<close> maps
  \<open>a\<close>..\<open>z\<close> to \<open>A\<close>..\<open>Z\<close>, \<open>str.strip\<close> removes the ASCII characters for
  which \<open>str.isspace\<close> holds from both ends, \<open>s.startswith(p)\<close> tests a prefix and
  \<open>k in s\<close> tests a contiguous occurrence.
\<close>

definition ascii_lowercase :: string where
  "ascii_lowercase = ''abcdefghijklmnopqrstuvwxyz''"

definition ascii_uppercase :: string where
  "ascii_uppercase = ''ABCDEFGHIJKLMNOPQRSTUVWXYZ''"

definition upper_char :: "char \<Rightarrow> char" where
  "upper_char c =
     (case map_of (zip ascii_lowercase ascii_uppercase) c of Some u \<Rightarrow> u | None \<Rightarrow> c)"

definition lower_char :: "char \<Rightarrow> char" where
  "lower_char c =
     (case map_of (zip ascii_uppercase ascii_lowercase) c of Some l \<Rightarrow> l | None \<Rightarrow> c)"

definition str_upper :: "string \<Rightarrow> string" where
  "str_upper s = map upper_char s"

definition str_lower :: "string \<Rightarrow> string" where
  "str_lower s = map lower_char s"

definition is_space :: "char \<Rightarrow> bool" where
  "is_space c \<longleftrightarrow>
     c \<in> set [CHR 0x09, CHR 0x0A, CHR 0x0B, CHR 0x0C, CHR 0x0D,
              CHR 0x1C, CHR 0x1D, CHR 0x1E, CHR 0x1F, CHR 0x20]"

definition str_strip :: "string \<Rightarrow> string" where
  "str_strip s = rev (dropWhile is_space (rev (dropWhile is_space s)))"

fun startswith :: "string \<Rightarrow> string \<Rightarrow> bool" where
  "startswith s [] = True"
| "startswith [] (p # ps) = False"
| "startswith (c # cs) (p # ps) = (c = p \<and> startswith cs ps)"

text \<open>\<open>str_contains k s\<close> is Python's \<open>k in s\<close>.\<close>

fun str_contains :: "string \<Rightarrow> string \<Rightarrow> bool" where
  "str_contains k [] = (k = [])"
| "str_contains k (c # cs) = (startswith (c # cs) k \<or> str_contains k cs)"

section \<open>The query validator: \<open>SQLiteQueryInput.validate_query_safety\<close>\<close>

text \<open>
  Both rejections are a \<open>ValueError\<close> in the source; the constructor tells which
  \<open>raise\<close> it was and \<open>error_message\<close> gives the text of the exception.
\<close>

datatype validation_error = NotReadOnly | ForbiddenKeyword string

definition error_message :: "validation_error \<Rightarrow> string" where
  "error_message e =
     (case e of
        NotReadOnly \<Rightarrow> ''Only SELECT queries are allowed for security reasons''
      | ForbiddenKeyword keyword \<Rightarrow> ''Query contains forbidden keyword: '' @ keyword)"

definition dangerous_keywords :: "string list" where
  "dangerous_keywords =
     [''DROP'', ''DELETE'', ''INSERT'', ''UPDATE'', ''ALTER'', ''CREATE'', ''TRUNCATE'']"

text \<open>
  The \<open>for keyword in dangerous_keywords\<close> loop: the first keyword of the list that
  occurs in the text raises, and \<open>None\<close> means that the loop ran to its end.
\<close>

fun first_forbidden :: "string list \<Rightarrow> string \<Rightarrow> string option" where
  "first_forbidden [] query_upper = None"
| "first_forbidden (keyword # keywords) query_upper =
     (if str_contains keyword query_upper then Some keyword
      else first_forbidden keywords query_upper)"

definition validate_query_safety :: "string \<Rightarrow> validation_error + string" where
  "validate_query_safety v =
     (let query_upper = str_upper (str_strip v) in
      if \<not> startswith query_upper ''SELECT'' then Inl NotReadOnly
      else (case first_forbidden dangerous_keywords query_upper of
              Some keyword \<Rightarrow> Inl (ForbiddenKeyword keyword)
            | None \<Rightarrow> Inr v))"

text \<open>
  The input schema of the tool. Building a \<open>SQLiteQueryInput\<close> runs the field
  validator on \<open>query\<close>; \<open>database_path\<close> is optional and has a default.
\<close>

record SQLiteQueryInput =
  query :: string
  database_path :: string

definition default_database_path :: string where
  "default_database_path = ''data/customer_support_tickets.db''"

definition new_SQLiteQueryInput ::
  "string \<Rightarrow> string option \<Rightarrow> validation_error + SQLiteQueryInput" where
  "new_SQLiteQueryInput q p =
     (case validate_query_safety q of
        Inl e \<Rightarrow> Inl e
      | Inr v \<Rightarrow>
          Inr \<lparr>query = v,
               database_path = (case p of None \<Rightarrow> default_database_path | Some d \<Rightarrow> d)\<rparr>)"

section \<open>Rendering: \<open>str\<close>, \<open>join\<close> and the values of a result row\<close>

definition newline :: string where
  "newline = [CHR 0x0A]"

definition digit_chars :: string where
  "digit_chars = ''0123456789''"

text \<open>\<open>str(n)\<close> for a natural number and for an integer: decimal digits.\<close>

fun str_nat :: "nat \<Rightarrow> string" where
  "str_nat n =
     (if n < 10 then [digit_chars ! n]
      else str_nat (n div 10) @ [digit_chars ! (n mod 10)])"

declare str_nat.simps [simp del]

definition str_int :: "int \<Rightarrow> string" where
  "str_int i = (if i < 0 then ''-'' @ str_nat (nat (- i)) else str_nat (nat i))"

text \<open>\<open>sep.join(xs)\<close>.\<close>

fun str_join :: "string \<Rightarrow> string list \<Rightarrow> string" where
  "str_join sep [] = []"
| "str_join sep [x] = x"
| "str_join sep (x # y # ys) = x @ sep @ str_join sep (y # ys)"

text \<open>
  The values that the \<open>sqlite3\<close> module hands to Python: \<open>None\<close>, \<open>int\<close>, \<open>float\<close>,
  \<open>str\<close> and \<open>bytes\<close>. Floating point and the escaping of \<open>bytes\<close> are not
  modelled: \<open>SqlReal\<close> and \<open>SqlBlob\<close> carry the text that \<open>str\<close> gives for the value.
\<close>

datatype sql_value =
  SqlNull | SqlInteger int | SqlReal string | SqlText string | SqlBlob string

definition py_str :: "sql_value \<Rightarrow> string" where
  "py_str v =
     (case v of
        SqlNull \<Rightarrow> ''None''
      | SqlInteger i \<Rightarrow> str_int i
      | SqlReal r \<Rightarrow> r
      | SqlText s \<Rightarrow> s
      | SqlBlob b \<Rightarrow> b)"

text \<open>
  A \<open>sqlite3.Row\<close> is the list of its columns, name and value, in column order. A
  Python \<open>dict\<close> is an association list with distinct keys in insertion order.
  \<open>dict(row)\<close> stores \<open>row[key]\<close> under every \<open>key\<close> of \<open>row.keys()\<close>, and
  \<open>row[key]\<close> is the value of the first column whose name equals \<open>key\<close> up to ASCII
  case.
\<close>

type_synonym sql_row = "(string \<times> sql_value) list"

type_synonym py_dict = "(string \<times> sql_value) list"

definition equal_ignore_case :: "string \<Rightarrow> string \<Rightarrow> bool" where
  "equal_ignore_case a b \<longleftrightarrow> a = b \<or> str_lower a = str_lower b"

fun row_getitem :: "sql_row \<Rightarrow> string \<Rightarrow> sql_value option" where
  "row_getitem [] key = None"
| "row_getitem ((name, v) # cols) key =
     (if equal_ignore_case key name then Some v else row_getitem cols key)"

fun dict_setitem :: "py_dict \<Rightarrow> string \<Rightarrow> sql_value \<Rightarrow> py_dict" where
  "dict_setitem [] key v = [(key, v)]"
| "dict_setitem ((k, w) # d) key v =
     (if k = key then (k, v) # d else (k, w) # dict_setitem d key v)"

definition dict_of_row :: "sql_row \<Rightarrow> py_dict" where
  "dict_of_row row =
     fold (\<lambda>key d. case row_getitem row key of
                      Some v \<Rightarrow> dict_setitem d key v
                    | None \<Rightarrow> d)
          (map fst row) []"

section \<open>The query gateway: \<open>SQLiteDatabaseTool._run\<close>\<close>

definition display_value_of :: "sql_value \<Rightarrow> string" where
  "display_value_of v =
     (let display_value = py_str v in
      if length display_value > 100 then take 97 display_value @ ''...''
      else display_value)"

text \<open>The inner loop over \<open>row.items()\<close> and the outer loop over the sampled rows.\<close>

definition add_fields :: "py_dict \<Rightarrow> string \<Rightarrow> string" where
  "add_fields row result_summary =
     fold (\<lambda>(key, v) s. s @ ''  '' @ key @ '': '' @ display_value_of v @ newline)
          row result_summary"

definition add_rows :: "py_dict list \<Rightarrow> string \<Rightarrow> string" where
  "add_rows sample result_summary =
     fold (\<lambda>(i, row) s. add_fields row (s @ newline @ ''Row '' @ str_nat i @ '':'' @ newline))
          (enumerate 1 sample) result_summary"

definition format_results :: "py_dict list \<Rightarrow> string" where
  "format_results results =
     (let result_summary =
            ''Query executed successfully. Retrieved '' @ str_nat (length results)
            @ '' row(s).'' @ newline @ newline;
          result_summary =
            (case results of
               [] \<Rightarrow> result_summary
             | first # _ \<Rightarrow>
                 result_summary @ ''Columns: '' @ str_join '', '' (map fst first)
                 @ newline @ newline);
          max_display_rows = min 20 (length results);
          result_summary =
            result_summary @ ''Sample results (showing first '' @ str_nat max_display_rows
            @ '' rows):'' @ newline;
          result_summary = add_rows (take max_display_rows results) result_summary
      in if length results > max_display_rows
         then result_summary @ newline @ ''... and ''
              @ str_nat (length results - max_display_rows) @ '' more rows.''
         else result_summary)"

text \<open>
  What the tool reaches outside itself is a parameter. An exception is either a
  \<open>sqlite3.Error\<close> or any other \<open>Exception\<close>, and carries \<open>str(e)\<close>.
  \<^item> \<open>resolve p\<close> is the text of \<open>project_root / p\<close>;
  \<^item> \<open>path_exists\<close> is \<open>Path.exists\<close>;
  \<^item> \<open>connect\<close> is \<open>sqlite3.connect\<close>, \<open>None\<close> when the connection opens;
  \<^item> \<open>execute_fetchall path q\<close> is the outcome of the body of the \<open>with\<close> block up
    to \<open>fetchall\<close> and of leaving the block: the rows, or the exception that leaves
    the block.
  The second component of the result of \<open>SQLiteDatabaseTool_run\<close> lists the calls made
  to the store and to the log, in order.
\<close>

datatype py_exception = SqliteError string | OtherException string

datatype event = Connect string | Execute string string | LogError string

record environment =
  resolve :: "string \<Rightarrow> string"
  path_exists :: "string \<Rightarrow> py_exception + bool"
  connect :: "string \<Rightarrow> py_exception option"
  execute_fetchall :: "string \<Rightarrow> string \<Rightarrow> py_exception + sql_row list"

text \<open>The two \<open>except\<close> clauses.\<close>

definition handle_exception :: "py_exception \<Rightarrow> event list \<Rightarrow> string \<times> event list" where
  "handle_exception e calls =
     (case e of
        SqliteError msg \<Rightarrow>
          (let error_msg = ''SQLite error: '' @ msg in (error_msg, calls @ [LogError error_msg]))
      | OtherException msg \<Rightarrow>
          (let error_msg = ''Unexpected error executing query: '' @ msg
           in (error_msg, calls @ [LogError error_msg])))"

definition SQLiteDatabaseTool_run ::
  "environment \<Rightarrow> string \<Rightarrow> string \<Rightarrow> string \<times> event list" where
  "SQLiteDatabaseTool_run env q dbp =
     (let full_db_path = resolve env dbp in
      case path_exists env full_db_path of
        Inl e \<Rightarrow> handle_exception e []
      | Inr present \<Rightarrow>
          if \<not> present then (''Error: Database file not found at '' @ full_db_path, [])
          else
            (case connect env full_db_path of
               Some e \<Rightarrow> handle_exception e [Connect full_db_path]
             | None \<Rightarrow>
                 (case execute_fetchall env full_db_path q of
                    Inl e \<Rightarrow>
                      handle_exception e [Connect full_db_path, Execute full_db_path q]
                  | Inr rows \<Rightarrow>
                      (if rows = []
                       then ''Query executed successfully but returned no results.''
                       else format_results (map dict_of_row rows),
                       [Connect full_db_path, Execute full_db_path q]))))"

section \<open>The pipeline: \<open>CustomerSupportTicketFlow\<close>\<close>

record State =
  database_structure :: string
  user_prompt :: string
  answer :: string

text \<open>
  The flow object. \<open>conn\<close> and \<open>cursor\<close> are \<open>None\<close> until the load stage binds
  them; a bound one holds the path of its store.
\<close>

record CustomerSupportTicketFlow =
  table_name :: string
  csv_data_path :: string
  flow_database_path :: string
  conn :: "string option"
  cursor :: "string option"
  state :: State

definition new_flow :: CustomerSupportTicketFlow where
  "new_flow =
     \<lparr>table_name = ''customer_support_tickets'',
      csv_data_path = ''data/'' @ ''customer_support_tickets'' @ ''.csv'',
      flow_database_path = ''data/'' @ ''customer_support_tickets'' @ ''.db'',
      conn = None,
      cursor = None,
      state = \<lparr>database_structure = [], user_prompt = [], answer = []\<rparr>\<rparr>"

text \<open>
  The outside of the flow:
  \<^item> \<open>read_csv_to_sql csv db table\<close> is \<open>pd.read_csv\<close>, \<open>connect\<close> and \<open>to_sql\<close>,
    \<open>None\<close> when all three return;
  \<^item> \<open>catalog_query db table\<close> is the \<open>SELECT sql FROM sqlite_master ...\<close> query with
    \<open>fetchone\<close>: an exception, or the first row's \<open>sql\<close> column, \<open>None\<close> when the
    catalog has no row for the table;
  \<^item> \<open>crew_kickoff prompt structure db\<close> is the external agent, giving \<open>result.raw\<close>;
  \<^item> \<open>write_summary\<close> writes \<open>executive_summary.md\<close> and \<open>close_conn\<close> closes the
    connection.
\<close>

record flow_environment =
  read_csv_to_sql :: "string \<Rightarrow> string \<Rightarrow> string \<Rightarrow> py_exception option"
  catalog_query :: "string \<Rightarrow> string \<Rightarrow> py_exception + string option"
  crew_kickoff :: "string \<Rightarrow> string \<Rightarrow> string \<Rightarrow> py_exception + string"
  write_summary :: "string \<Rightarrow> py_exception option"
  close_conn :: "string \<Rightarrow> py_exception option"

text \<open>
  \<open>TableNotFound\<close> is the \<open>TypeError\<close> of \<open>fetchone()[0]\<close> when \<open>fetchone\<close> gives
  \<open>None\<close>; \<open>NoCursor\<close> and \<open>NoConnection\<close> are the \<open>AttributeError\<close> of a method
  call on \<open>None\<close>.
\<close>

datatype flow_error = Raised py_exception | TableNotFound | NoCursor | NoConnection

datatype flow_event =
  Print string
| LoadDataset string string string
| CatalogQuery string string
| CrewKickoff string string string
| WriteSummary string
| CloseConnection string

type_synonym stage_result = "(flow_error + CustomerSupportTicketFlow) \<times> flow_event list"

definition load_dataset ::
  "flow_environment \<Rightarrow> CustomerSupportTicketFlow \<Rightarrow> stage_result" where
  "load_dataset env f =
     (let calls = [Print ''>>> Loading dataset'',
                   LoadDataset (csv_data_path f) (flow_database_path f) (table_name f)]
      in case read_csv_to_sql env (csv_data_path f) (flow_database_path f) (table_name f) of
           Some e \<Rightarrow> (Inl (Raised e), calls)
         | None \<Rightarrow>
             (Inr (f\<lparr>conn := Some (flow_database_path f),
                     cursor := Some (flow_database_path f)\<rparr>), calls))"

definition inspect_database_structure ::
  "flow_environment \<Rightarrow> CustomerSupportTicketFlow \<Rightarrow> stage_result" where
  "inspect_database_structure env f =
     (case cursor f of
        None \<Rightarrow> (Inl NoCursor, [Print ''>>> Inspecting database structure''])
      | Some db \<Rightarrow>
          (let calls = [Print ''>>> Inspecting database structure'',
                        CatalogQuery db (table_name f)]
           in case catalog_query env db (table_name f) of
                Inl e \<Rightarrow> (Inl (Raised e), calls)
              | Inr None \<Rightarrow> (Inl TableNotFound, calls)
              | Inr (Some ddl) \<Rightarrow>
                  (Inr (f\<lparr>state := (state f)\<lparr>database_structure := ddl\<rparr>\<rparr>), calls)))"

definition answer_user_prompt ::
  "flow_environment \<Rightarrow> CustomerSupportTicketFlow \<Rightarrow> stage_result" where
  "answer_user_prompt env f =
     (let calls = [Print ''>>> Answering user prompt'',
                   CrewKickoff (user_prompt (state f)) (database_structure (state f))
                     (flow_database_path f)]
      in case crew_kickoff env (user_prompt (state f)) (database_structure (state f))
                (flow_database_path f) of
           Inl e \<Rightarrow> (Inl (Raised e), calls)
         | Inr raw \<Rightarrow>
             (let f' = f\<lparr>state := (state f)\<lparr>answer := raw\<rparr>\<rparr> in
              case write_summary env (answer (state f')) of
                Some e \<Rightarrow> (Inl (Raised e), calls @ [WriteSummary (answer (state f'))])
              | None \<Rightarrow> (Inr f', calls @ [WriteSummary (answer (state f'))])))"

definition close_connection ::
  "flow_environment \<Rightarrow> CustomerSupportTicketFlow \<Rightarrow> stage_result" where
  "close_connection env f =
     (case conn f of
        None \<Rightarrow> (Inl NoConnection, [Print ''>>> Closing connection''])
      | Some db \<Rightarrow>
          (let calls = [Print ''>>> Closing connection'', CloseConnection db]
           in case close_conn env db of
                Some e \<Rightarrow> (Inl (Raised e), calls)
              | None \<Rightarrow> (Inr f, calls)))"

text \<open>
  \<open>@listen(m)\<close>: the listener runs once \<open>m\<close> has returned; after an exception in \<open>m\<close>
  no stage that listens to it runs.
\<close>

definition listen ::
  "stage_result \<Rightarrow> (CustomerSupportTicketFlow \<Rightarrow> stage_result) \<Rightarrow> stage_result" where
  "listen r stage =
     (case r of
        (Inl e, calls) \<Rightarrow> (Inl e, calls)
      | (Inr f, calls) \<Rightarrow> (case stage f of (r', calls') \<Rightarrow> (r', calls @ calls')))"

definition kickoff :: "flow_environment \<Rightarrow> string \<Rightarrow> stage_result" where
  "kickoff env prompt =
     listen
       (listen
          (listen
             (load_dataset env (new_flow\<lparr>state := (state new_flow)\<lparr>user_prompt := prompt\<rparr>\<rparr>))
             (inspect_database_structure env))
          (answer_user_prompt env))
       (close_connection env)"

definition agent_invoked :: "flow_event list \<Rightarrow> bool" where
  "agent_invoked calls =
     list_ex (\<lambda>ev. case ev of CrewKickoff _ _ _ \<Rightarrow> True | _ \<Rightarrow> False) calls"

section \<open>Notions used to state the properties\<close>












text \<open>Stores and flows for the concrete instances below.\<close>

definition example_environment ::
  "py_exception + bool \<Rightarrow> py_exception option \<Rightarrow> py_exception + sql_row list \<Rightarrow> environment"
  where
  "example_environment present opened outcome =
     \<lparr>resolve = (\<lambda>p. ''/project/'' @ p),
      path_exists = (\<lambda>p. present),
      connect = (\<lambda>p. opened),
      execute_fetchall = (\<lambda>p q. outcome)\<rparr>"

definition example_flow_environment :: "string option \<Rightarrow> flow_environment" where
  "example_flow_environment ddl =
     \<lparr>read_csv_to_sql = (\<lambda>csv db t. None),
      catalog_query = (\<lambda>db t. Inr ddl),
      crew_kickoff = (\<lambda>prompt structure db. Inr ''42 tickets''),
      write_summary = (\<lambda>text. None),
      close_conn = (\<lambda>db. None)\<rparr>"


definition example_store_path :: string where
  "example_store_path = ''/project/data/customer_support_tickets.db''"

section \<open>Facts about the string operations and the validator\<close>





lemma validate_cases:
  "validate_query_safety v =
     (if \<not> startswith (str_upper (str_strip v)) ''SELECT'' then Inl NotReadOnly
      else case first_forbidden dangerous_keywords (str_upper (str_strip v)) of
             Some keyword \<Rightarrow> Inl (ForbiddenKeyword keyword) | None \<Rightarrow> Inr v)"
  by (simp add: validate_query_safety_def Let_def)





section \<open>Facts about the report\<close>











text \<open>
  On a row whose column names differ pairwise up to case, \<open>dict(row)\<close> keeps every
  column with its value, in column order.
\<close>

lemma row_getitem_first:
  assumes "\<forall>name \<in> fst ` set pre. str_lower name \<noteq> str_lower k"
  shows "row_getitem (pre @ (k, v) # suf) k = Some v"
  using assms by (induction pre) (auto simp: equal_ignore_case_def)

lemma dict_setitem_new:
  assumes "k \<notin> fst ` set d"
  shows "dict_setitem d k v = d @ [(k, v)]"
  using assms by (induction d) auto

lemma dict_of_row_fold:
  assumes "row = pre @ suf" and "distinct (map (str_lower \<circ> fst) row)"
  shows "fold (\<lambda>key d. case row_getitem row key of
                         Some v \<Rightarrow> dict_setitem d key v
                       | None \<Rightarrow> d)
              (map fst suf) pre = row"
  using assms
proof (induction suf arbitrary: pre)
  case Nil
  then show ?case by simp
next
  case (Cons kv suf)
  obtain k v where kv: "kv = (k, v)" by (cases kv)
  have "str_lower k \<notin> (str_lower \<circ> fst) ` set pre"
    using Cons.prems by (simp add: kv)
  then have low: "\<forall>name \<in> fst ` set pre. str_lower name \<noteq> str_lower k"
    by force
  have get: "row_getitem row k = Some v"
    using Cons.prems(1) low by (simp add: kv row_getitem_first)
  have "k \<notin> fst ` set pre" using low by auto
  then have set: "dict_setitem pre k v = pre @ [(k, v)]" by (rule dict_setitem_new)
  have "row = (pre @ [(k, v)]) @ suf" using Cons.prems(1) by (simp add: kv)
  from Cons.IH [OF this Cons.prems(2)] show ?case by (simp add: kv get set)
qed

lemma dict_of_row_distinct_columns:
  "distinct (map (str_lower \<circ> fst) row) \<Longrightarrow> dict_of_row row = row"
  unfolding dict_of_row_def using dict_of_row_fold [of row "[]" row] by simp

section \<open>The query validator\<close>



text \<open>
  The keyword inside a string literal: \<open>SELECT * FROM t WHERE x = 'DROP'\<close>.
\<close>

lemma forbidden_keyword_in_literal_example:
  "validate_query_safety (''SELECT * FROM t WHERE x = '' @ [CHR 0x27] @ ''DROP'' @ [CHR 0x27])
     = Inl (ForbiddenKeyword ''DROP'')"
  by code_simp






section \<open>The query gateway\<close>

text \<open>
  C3, as stated, says that the gateway validates the query again inside the call and
  never executes a query that fails the validator. \<open>_run\<close> has no such check: a
  \<open>DELETE\<close> statement, which the validator rejects, is executed against an existing
  store.
\<close>

theorem run_without_validation_counterexample:
  "validate_query_safety ''DELETE FROM customer_support_tickets'' = Inl NotReadOnly
   \<and> SQLiteDatabaseTool_run (example_environment (Inr True) None (Inr []))
       ''DELETE FROM customer_support_tickets'' ''data/customer_support_tickets.db''
     = (''Query executed successfully but returned no results.'',
        [Connect example_store_path,
         Execute example_store_path ''DELETE FROM customer_support_tickets''])"
  by code_simp

text \<open>
  C3, amended. \<open>_run\<close> does not apply the validation rules: whenever the store file
  exists and the connection opens, it executes the query text it is given, whatever
  the text is. The rules are applied by the input schema: building a
  \<open>SQLiteQueryInput\<close> fails with the validator's error for every query the validator
  rejects, and an input that is built carries a query the validator accepted.
\<close>

theorem run_executes_any_query:
  assumes "path_exists env (resolve env dbp) = Inr True"
    and "connect env (resolve env dbp) = None"
  shows "Execute (resolve env dbp) q \<in> set (snd (SQLiteDatabaseTool_run env q dbp))
         \<and> (\<forall>e. validate_query_safety q = Inl e \<longrightarrow> new_SQLiteQueryInput q p = Inl e)
         \<and> (\<forall>inp. new_SQLiteQueryInput q p = Inr inp \<longrightarrow>
               validate_query_safety q = Inr q \<and> query inp = q)"
proof -
  have "Execute (resolve env dbp) q \<in> set (snd (SQLiteDatabaseTool_run env q dbp))"
    using assms
    by (cases "execute_fetchall env (resolve env dbp) q")
       (auto simp: SQLiteDatabaseTool_run_def Let_def handle_exception_def split: py_exception.splits)
  moreover have "\<forall>e. validate_query_safety q = Inl e \<longrightarrow> new_SQLiteQueryInput q p = Inl e"
    by (simp add: new_SQLiteQueryInput_def)
  moreover have "\<forall>inp. new_SQLiteQueryInput q p = Inr inp \<longrightarrow>
               validate_query_safety q = Inr q \<and> query inp = q"
    by (auto simp: new_SQLiteQueryInput_def validate_cases split: sum.splits if_splits option.splits)
  ultimately show ?thesis by blast
qed

text \<open>
  A \<open>DROP TABLE\<close> statement on an existing store: executed by \<open>_run\<close>, refused by the schema.
\<close>

theorem run_executes_any_query_witness:
  "path_exists (example_environment (Inr True) None (Inr []))
     (resolve (example_environment (Inr True) None (Inr [])) ''data/customer_support_tickets.db'')
     = Inr True
   \<and> connect (example_environment (Inr True) None (Inr []))
       (resolve (example_environment (Inr True) None (Inr [])) ''data/customer_support_tickets.db'')
     = None
   \<and> Execute example_store_path ''DROP TABLE customer_support_tickets''
       \<in> set (snd (SQLiteDatabaseTool_run (example_environment (Inr True) None (Inr []))
                     ''DROP TABLE customer_support_tickets'' ''data/customer_support_tickets.db''))
   \<and> new_SQLiteQueryInput ''DROP TABLE customer_support_tickets'' None = Inl NotReadOnly"
proof -
  let ?env = "example_environment (Inr True) None (Inr [])"
  let ?p = "''data/customer_support_tickets.db''"
  have h1: "path_exists ?env (resolve ?env ?p) = Inr True"
    by (simp add: example_environment_def)
  have h2: "connect ?env (resolve ?env ?p) = None"
    by (simp add: example_environment_def)
  have r: "resolve ?env ?p = example_store_path"
    by (simp add: example_environment_def example_store_path_def)
  have v: "validate_query_safety ''DROP TABLE customer_support_tickets'' = Inl NotReadOnly"
    by code_simp
  show ?thesis
    using h1 h2 v
      run_executes_any_query [OF h1 h2, of "''DROP TABLE customer_support_tickets''" None]
    by (simp add: r)
qed




text \<open>
  C6. When the resolved store path is not an existing file, the gateway returns the
  text \<open>Error: Database file not found at \<close> followed by the path, and makes no call
  to the store: no connection, no execution.
\<close>

theorem store_not_found_reported:
  assumes "path_exists env (resolve env dbp) = Inr False"
  shows "SQLiteDatabaseTool_run env q dbp =
           (''Error: Database file not found at '' @ resolve env dbp, [])
         \<and> startswith (fst (SQLiteDatabaseTool_run env q dbp)) ''Error: Database file not found''"
  using assms by (simp add: SQLiteDatabaseTool_run_def Let_def)

text \<open>
  A store whose file is absent.
\<close>

theorem store_not_found_reported_witness:
  "path_exists (example_environment (Inr False) None (Inr []))
     (resolve (example_environment (Inr False) None (Inr [])) ''data/missing.db'') = Inr False
   \<and> SQLiteDatabaseTool_run (example_environment (Inr False) None (Inr []))
       ''SELECT 1'' ''data/missing.db''
     = (''Error: Database file not found at /project/data/missing.db'', [])"
proof -
  let ?env = "example_environment (Inr False) None (Inr [])"
  have h: "path_exists ?env (resolve ?env ''data/missing.db'') = Inr False"
    by (simp add: example_environment_def)
  have r: "resolve ?env ''data/missing.db'' = ''/project/data/missing.db''"
    by (simp add: example_environment_def)
  show ?thesis
    using h store_not_found_reported [OF h, of "''SELECT 1''"] by (simp add: r)
qed







section \<open>The pipeline\<close>

text \<open>
  C10. When the load stage has returned and the catalog of the store has no table of
  the configured name, the inspect stage fails with \<open>TableNotFound\<close>, the run ends
  there, and the external agent is not invoked: the only calls made are those of the
  load stage and of the catalog query.
\<close>

theorem missing_table_is_fatal:
  assumes "read_csv_to_sql env (csv_data_path new_flow) (flow_database_path new_flow)
             (table_name new_flow) = None"
    and "catalog_query env (flow_database_path new_flow) (table_name new_flow) = Inr None"
  shows "fst (kickoff env prompt) = Inl TableNotFound
         \<and> \<not> agent_invoked (snd (kickoff env prompt))
         \<and> snd (kickoff env prompt) =
             [Print ''>>> Loading dataset'',
              LoadDataset ''data/customer_support_tickets.csv''
                ''data/customer_support_tickets.db'' ''customer_support_tickets'',
              Print ''>>> Inspecting database structure'',
              CatalogQuery ''data/customer_support_tickets.db'' ''customer_support_tickets'']"
proof -
  let ?f = "new_flow\<lparr>state := (state new_flow)\<lparr>user_prompt := prompt\<rparr>\<rparr>"
  have load: "load_dataset env ?f =
      (Inr (?f\<lparr>conn := Some (flow_database_path new_flow),
               cursor := Some (flow_database_path new_flow)\<rparr>),
       [Print ''>>> Loading dataset'',
        LoadDataset (csv_data_path new_flow) (flow_database_path new_flow) (table_name new_flow)])"
    using assms(1) by (simp add: load_dataset_def Let_def)
  have insp: "inspect_database_structure env
        (?f\<lparr>conn := Some (flow_database_path new_flow),
            cursor := Some (flow_database_path new_flow)\<rparr>) =
      (Inl TableNotFound,
       [Print ''>>> Inspecting database structure'',
        CatalogQuery (flow_database_path new_flow) (table_name new_flow)])"
    using assms(2) by (simp add: inspect_database_structure_def Let_def)
  have k: "kickoff env prompt =
      (Inl TableNotFound,
       [Print ''>>> Loading dataset'',
        LoadDataset (csv_data_path new_flow) (flow_database_path new_flow) (table_name new_flow),
        Print ''>>> Inspecting database structure'',
        CatalogQuery (flow_database_path new_flow) (table_name new_flow)])"
    by (simp add: kickoff_def listen_def load insp)
  show ?thesis
    by (simp add: k agent_invoked_def) (simp add: new_flow_def)
qed

text \<open>
  A store whose catalog is empty after the load.
\<close>

theorem missing_table_is_fatal_witness:
  "read_csv_to_sql (example_flow_environment None) (csv_data_path new_flow)
     (flow_database_path new_flow) (table_name new_flow) = None
   \<and> catalog_query (example_flow_environment None) (flow_database_path new_flow)
       (table_name new_flow) = Inr None
   \<and> fst (kickoff (example_flow_environment None) ''How many tickets are still open?'')
       = Inl TableNotFound
   \<and> \<not> agent_invoked
         (snd (kickoff (example_flow_environment None) ''How many tickets are still open?''))"
proof -
  let ?env = "example_flow_environment None"
  have h1: "read_csv_to_sql ?env (csv_data_path new_flow) (flow_database_path new_flow)
              (table_name new_flow) = None"
    by (simp add: example_flow_environment_def)
  have h2: "catalog_query ?env (flow_database_path new_flow) (table_name new_flow) = Inr None"
    by (simp add: example_flow_environment_def)
  show ?thesis
    using h1 h2 missing_table_is_fatal [OF h1 h2, of "''How many tickets are still open?''"]
    by blast
qed

text \<open>
  With the table present the same flow reaches the agent and stores its answer.
\<close>

lemma kickoff_with_table_example:
  "agent_invoked
     (snd (kickoff (example_flow_environment (Some ''CREATE TABLE customer_support_tickets (id TEXT)''))
             ''How many tickets are still open?''))
   \<and> state (projr (fst (kickoff
        (example_flow_environment (Some ''CREATE TABLE customer_support_tickets (id TEXT)''))
        ''How many tickets are still open?'')))
     = \<lparr>database_structure = ''CREATE TABLE customer_support_tickets (id TEXT)'',
        user_prompt = ''How many tickets are still open?'',
        answer = ''42 tickets''\<rparr>"
  by (simp add: kickoff_def listen_def load_dataset_def inspect_database_structure_def
      answer_user_prompt_def close_connection_def new_flow_def example_flow_environment_def
      agent_invoked_def Let_def)

end
